theory Spec2Isabelle
  imports Main "HOL-Library.Word"
begin

section \<open>Data model\<close>

text \<open>
  The three tables of \<^verbatim>\<open>src/db/schema.ts\<close>. The \<^verbatim>\<open>uuid\<close> columns hold 128-bit values;
  the \<^verbatim>\<open>x-user-id\<close> header, the path parameters and the request bodies carry text, which
  the store reads as a uuid when a statement binds it. JavaScript strings are sequences of
  16-bit code units. A timestamp is the value of \<^verbatim>\<open>new Date()\<close>.
\<close>

type_synonym uuid = "128 word"
type_synonym jsstring = "16 word list"
type_synonym timestamp = int

text \<open>\<^verbatim>\<open>friend_requests.status\<close>: "Status can be 'pending' or 'accepted'".\<close>

datatype request_status = Pending | Accepted

record user =
  users_id :: uuid
  users_email :: jsstring
  users_createdAt :: timestamp

record secretMessage =
  secretMessages_id :: uuid
  secretMessages_user_id :: uuid
  secretMessages_content :: jsstring
  secretMessages_updated_at :: timestamp

record friendRequest =
  friendRequests_id :: uuid
  friendRequests_sender_id :: uuid
  friendRequests_receiver_id :: uuid
  friendRequests_status :: request_status
  friendRequests_created_at :: timestamp

text \<open>The store: each table is the list of its rows, in insertion order.\<close>

record db =
  users :: "user list"
  secretMessages :: "secretMessage list"
  friendRequests :: "friendRequest list"

definition empty_db :: db where
  "empty_db = \<lparr>users = [], secretMessages = [], friendRequests = []\<rparr>"

text \<open>
  What a statement of the store can raise: a parameter that is not the text of a uuid
  (\<^verbatim>\<open>invalid input syntax for type uuid\<close>), a string that holds the code unit 0
  (\<^verbatim>\<open>invalid byte sequence for encoding "UTF8": 0x00\<close>), or a violated constraint of the
  schema. Every handler catches it and answers 500.
\<close>

datatype store_error =
    InvalidTextRepresentation
  | CharacterNotInRepertoire
  | NotNullViolation
  | UniqueViolation
  | ForeignKeyViolation

section \<open>Request bodies and replies\<close>

text \<open>
  A field of a parsed JSON body. Only \<^verbatim>\<open>typeof content !== 'string'\<close> inspects the kind of a
  value, so numbers are kept as integers and arrays and objects are not told apart. The
  other fields (\<^verbatim>\<open>email\<close>, \<^verbatim>\<open>receiver_id\<close>, \<^verbatim>\<open>requestId\<close>) are strings, or absent where
  a handler or the store tests for it.
\<close>

datatype jsvalue = JUndefined | JNull | JBoolean bool | JNumber int | JString jsstring | JObject

text \<open>
  The row selected by the secrets query of \<^verbatim>\<open>GET /api/protected/friends/messages/:friendId\<close>
  (the keys of the source, prefixed).
\<close>

record friendSecret =
  row_sender_id :: uuid
  row_receiver_id :: uuid
  row_friend_email :: jsstring
  row_friend_secret :: jsstring
  row_secret_message_id :: uuid
  row_created_at :: timestamp

text \<open>
  The row selected by \<^verbatim>\<open>GET /api/protected/friends/friend-requests\<close>: the request and the
  sender's email.
\<close>

record incomingRequest =
  request :: friendRequest
  sender_email :: jsstring

datatype payload =
    NoData
  | UserRow user
  | SecretRow secretMessage
  | SecretRows "secretMessage list"
  | RequestRow friendRequest
  | RequestRowOpt "friendRequest option"
  | IncomingRequests "incomingRequest list"
  | FriendSecrets "friendSecret list"

text \<open>
  A reply: the HTTP status code, the \<^verbatim>\<open>status\<close> field of the JSON body where the body
  has one, and the rows the body carries.
\<close>

datatype reply = Reply (code: nat) (status: "string option") (data: payload)

section \<open>String.prototype.trim\<close>

text \<open>
  \<^verbatim>\<open>trim()\<close> removes the code units of ECMAScript's WhiteSpace and LineTerminator
  productions from both ends: TAB, VT, FF, SP, NBSP, ZWNBSP, the other space separators
  (U+1680, U+2000 to U+200A, U+202F, U+205F, U+3000), and LF, CR, LS, PS.
\<close>

definition isWhiteSpace :: "16 word \<Rightarrow> bool" where
  "isWhiteSpace c =
     (c = 0x09 \<or> c = 0x0A \<or> c = 0x0B \<or> c = 0x0C \<or> c = 0x0D \<or> c = 0x20 \<or> c = 0xA0
      \<or> c = 0x1680 \<or> (0x2000 \<le> c \<and> c \<le> 0x200A) \<or> c = 0x2028 \<or> c = 0x2029
      \<or> c = 0x202F \<or> c = 0x205F \<or> c = 0x3000 \<or> c = 0xFEFF)"

definition trim :: "jsstring \<Rightarrow> jsstring" where
  "trim s = rev (dropWhile isWhiteSpace (rev (dropWhile isWhiteSpace s)))"

section \<open>Parameters of a statement\<close>

text \<open>
  The store reads the text bound to a \<^verbatim>\<open>uuid\<close> column as PostgreSQL's \<^verbatim>\<open>string_to_uuid\<close>
  does: an optional opening brace; sixteen bytes of two hexadecimal digits each, of either
  case; after the bytes of odd index, the last excepted, an optional hyphen; the closing
  brace when there was an opening one; and nothing more. Two texts that differ in case,
  hyphens or braces give the same value.
\<close>

definition isxdigit :: "char \<Rightarrow> bool" where
  "isxdigit c =
     (let n = (of_char c :: nat)
      in (48 \<le> n \<and> n \<le> 57) \<or> (65 \<le> n \<and> n \<le> 70) \<or> (97 \<le> n \<and> n \<le> 102))"

definition hexval :: "char \<Rightarrow> nat" where
  "hexval c =
     (let n = (of_char c :: nat)
      in if n \<le> 57 then n - 48 else if n \<le> 70 then n - 55 else n - 87)"

fun uuid_bytes :: "nat list \<Rightarrow> string \<Rightarrow> uuid \<Rightarrow> (uuid \<times> string) option" where
  "uuid_bytes [] src acc = Some (acc, src)"
| "uuid_bytes (i # is) src acc =
     (case src of
        c1 # c2 # rest \<Rightarrow>
          if isxdigit c1 \<and> isxdigit c2
          then uuid_bytes is
                 (case rest of
                    c # rest' \<Rightarrow> if c = CHR ''-'' \<and> i mod 2 = 1 \<and> i < 15 then rest' else rest
                  | [] \<Rightarrow> rest)
                 (acc * 256 + of_nat (16 * hexval c1 + hexval c2))
          else None
      | _ \<Rightarrow> None)"

definition string_to_uuid :: "string \<Rightarrow> uuid option" where
  "string_to_uuid source =
     (case source of
        c # src \<Rightarrow>
          if c = CHR ''{''
          then (case uuid_bytes [0..<16] src 0 of
                  Some (u, rest) \<Rightarrow> if rest = ''}'' then Some u else None
                | None \<Rightarrow> None)
          else (case uuid_bytes [0..<16] source 0 of
                  Some (u, rest) \<Rightarrow> if rest = [] then Some u else None
                | None \<Rightarrow> None)
      | [] \<Rightarrow> None)"

text \<open>
  A JavaScript string bound to a \<^verbatim>\<open>text\<close> column is sent as UTF-8. The driver's encoder
  writes U+FFFD for a surrogate that has no partner (as \<^verbatim>\<open>String.prototype.toWellFormed\<close>
  does), and the store refuses a string that holds the code unit 0.
\<close>

definition is_high :: "16 word \<Rightarrow> bool" where
  "is_high c = (0xD800 \<le> c \<and> c \<le> 0xDBFF)"

definition is_low :: "16 word \<Rightarrow> bool" where
  "is_low c = (0xDC00 \<le> c \<and> c \<le> 0xDFFF)"

fun toWellFormed :: "jsstring \<Rightarrow> jsstring" where
  "toWellFormed [] = []"
| "toWellFormed [c] = (if is_high c \<or> is_low c then [0xFFFD] else [c])"
| "toWellFormed (c # c' # cs) =
     (if is_high c \<and> is_low c' then c # c' # toWellFormed cs
      else if is_high c \<or> is_low c then 0xFFFD # toWellFormed (c' # cs)
      else c # toWellFormed (c' # cs))"

definition text_in :: "jsstring \<Rightarrow> jsstring option" where
  "text_in s = (if 0 \<in> set s then None else Some (toWellFormed s))"

section \<open>Statements of the store\<close>

text \<open>
  A statement first reads its parameters and raises on one it cannot read; then it raises
  when it violates a constraint of the schema: a primary key, the unique index, a foreign
  key, or \<^verbatim>\<open>notNull()\<close>.
\<close>

text \<open>
  \<^verbatim>\<open>const [row] = await ... .returning()\<close> takes the first returned row, or
  \<^verbatim>\<open>undefined\<close> when there is none.
\<close>

definition first_row :: "'a list \<Rightarrow> 'a option" where
  "first_row rows = (case rows of [] \<Rightarrow> None | r # _ \<Rightarrow> Some r)"

definition user_exists :: "db \<Rightarrow> uuid \<Rightarrow> bool" where
  "user_exists d uid = (uid \<in> set (map users_id (users d)))"

text \<open>
  \<^verbatim>\<open>db.insert(users).values({id, email, createdAt}).onConflictDoNothing().returning()\<close>.
  \<^verbatim>\<open>email\<close> is \<^verbatim>\<open>notNull()\<close>; a row whose primary key is taken is skipped and nothing
  is returned.
\<close>

definition insert_users ::
  "db \<Rightarrow> string \<Rightarrow> jsstring option \<Rightarrow> timestamp \<Rightarrow> store_error + db \<times> user list" where
  "insert_users d id_text email now =
     (case string_to_uuid id_text of
        None \<Rightarrow> Inl InvalidTextRepresentation
      | Some uid \<Rightarrow>
          (case email of
             None \<Rightarrow> Inl NotNullViolation
           | Some e \<Rightarrow>
               (case text_in e of
                  None \<Rightarrow> Inl CharacterNotInRepertoire
                | Some t \<Rightarrow>
                    if user_exists d uid then Inr (d, [])
                    else (let u = \<lparr>users_id = uid, users_email = t, users_createdAt = now\<rparr>
                          in Inr (d\<lparr>users := users d @ [u]\<rparr>, [u])))))"

text \<open>
  \<^verbatim>\<open>db.delete(users).where(eq(users.id, userId)).returning()\<close>. Both foreign keys of
  \<^verbatim>\<open>friend_requests\<close> and the one of \<^verbatim>\<open>secret_messages\<close> are declared
  \<^verbatim>\<open>onDelete: 'cascade'\<close>: the rows referencing a deleted user go with it.
\<close>

definition delete_users :: "db \<Rightarrow> string \<Rightarrow> store_error + db \<times> user list" where
  "delete_users d id_text =
     (case string_to_uuid id_text of
        None \<Rightarrow> Inl InvalidTextRepresentation
      | Some uid \<Rightarrow>
          (let deleted = filter (\<lambda>u. users_id u = uid) (users d)
           in if deleted = [] then Inr (d, [])
              else Inr (\<lparr>users = filter (\<lambda>u. users_id u \<noteq> uid) (users d),
                         secretMessages =
                           filter (\<lambda>m. secretMessages_user_id m \<noteq> uid) (secretMessages d),
                         friendRequests =
                           filter (\<lambda>r. friendRequests_sender_id r \<noteq> uid
                                       \<and> friendRequests_receiver_id r \<noteq> uid)
                             (friendRequests d)\<rparr>,
                        deleted)))"

text \<open>
  \<^verbatim>\<open>db.insert(secretMessages).values({user_id, content, updated_at}).returning()\<close>. The
  primary key is drawn by \<^verbatim>\<open>gen_random_uuid()\<close>, here the argument \<open>new_id\<close>;
  \<^verbatim>\<open>user_id\<close> references \<^verbatim>\<open>users.id\<close>.
\<close>

definition insert_secretMessages ::
  "db \<Rightarrow> uuid \<Rightarrow> string \<Rightarrow> jsstring \<Rightarrow> timestamp \<Rightarrow> store_error + db \<times> secretMessage list" where
  "insert_secretMessages d new_id user_text content now =
     (case string_to_uuid user_text of
        None \<Rightarrow> Inl InvalidTextRepresentation
      | Some uid \<Rightarrow>
          (case text_in content of
             None \<Rightarrow> Inl CharacterNotInRepertoire
           | Some t \<Rightarrow>
               if new_id \<in> set (map secretMessages_id (secretMessages d)) then Inl UniqueViolation
               else if \<not> user_exists d uid then Inl ForeignKeyViolation
               else (let m = \<lparr>secretMessages_id = new_id, secretMessages_user_id = uid,
                               secretMessages_content = t, secretMessages_updated_at = now\<rparr>
                     in Inr (d\<lparr>secretMessages := secretMessages d @ [m]\<rparr>, [m]))))"

text \<open>
  \<^verbatim>\<open>db.select().from(secretMessages).where(eq(secretMessages.user_id, userId))\<close>.
\<close>

definition select_secretMessages :: "db \<Rightarrow> string \<Rightarrow> store_error + secretMessage list" where
  "select_secretMessages d user_text =
     (case string_to_uuid user_text of
        None \<Rightarrow> Inl InvalidTextRepresentation
      | Some uid \<Rightarrow> Inr (filter (\<lambda>m. secretMessages_user_id m = uid) (secretMessages d)))"

text \<open>
  \<^verbatim>\<open>db.update(secretMessages).set({content, updated_at}).where(eq(secretMessages.id, id)).returning()\<close>.
\<close>

definition set_content :: "jsstring \<Rightarrow> timestamp \<Rightarrow> secretMessage \<Rightarrow> secretMessage" where
  "set_content content now m =
     m\<lparr>secretMessages_content := content, secretMessages_updated_at := now\<rparr>"

definition update_secretMessages ::
  "db \<Rightarrow> string \<Rightarrow> jsstring \<Rightarrow> timestamp \<Rightarrow> store_error + db \<times> secretMessage list" where
  "update_secretMessages d id_text content now =
     (case string_to_uuid id_text of
        None \<Rightarrow> Inl InvalidTextRepresentation
      | Some sid \<Rightarrow>
          (case text_in content of
             None \<Rightarrow> Inl CharacterNotInRepertoire
           | Some t \<Rightarrow>
               Inr (d\<lparr>secretMessages :=
                        map (\<lambda>m. if secretMessages_id m = sid then set_content t now m else m)
                          (secretMessages d)\<rparr>,
                    map (set_content t now)
                      (filter (\<lambda>m. secretMessages_id m = sid) (secretMessages d)))))"

text \<open>The requests from one user to another, by the values of their ids.\<close>

definition edges :: "db \<Rightarrow> uuid \<Rightarrow> uuid \<Rightarrow> friendRequest list" where
  "edges d a b =
     filter (\<lambda>r. friendRequests_sender_id r = a \<and> friendRequests_receiver_id r = b)
       (friendRequests d)"

text \<open>
  \<^verbatim>\<open>db.query.friendRequests.findFirst({where: and(eq(fr.sender_id, sender_id), eq(fr.receiver_id, receiver_id))})\<close>.
\<close>

definition findFirst_friendRequests ::
  "db \<Rightarrow> string \<Rightarrow> string \<Rightarrow> store_error + friendRequest option" where
  "findFirst_friendRequests d sender_text receiver_text =
     (case string_to_uuid sender_text of
        None \<Rightarrow> Inl InvalidTextRepresentation
      | Some sender \<Rightarrow>
          (case string_to_uuid receiver_text of
             None \<Rightarrow> Inl InvalidTextRepresentation
           | Some receiver \<Rightarrow> Inr (first_row (edges d sender receiver))))"

text \<open>
  \<^verbatim>\<open>db.insert(friendRequests).values({sender_id, receiver_id, status: 'pending', created_at}).returning()\<close>.
  The primary key is \<open>new_id\<close>; sender and receiver reference \<^verbatim>\<open>users.id\<close>; the unique
  index \<^verbatim>\<open>friend_requests_unique_pair_idx\<close> is on (sender_id, receiver_id).
\<close>

definition insert_friendRequests ::
  "db \<Rightarrow> uuid \<Rightarrow> string \<Rightarrow> string \<Rightarrow> timestamp \<Rightarrow> store_error + db \<times> friendRequest list" where
  "insert_friendRequests d new_id sender_text receiver_text now =
     (case string_to_uuid sender_text of
        None \<Rightarrow> Inl InvalidTextRepresentation
      | Some sender \<Rightarrow>
          (case string_to_uuid receiver_text of
             None \<Rightarrow> Inl InvalidTextRepresentation
           | Some receiver \<Rightarrow>
               if new_id \<in> set (map friendRequests_id (friendRequests d)) then Inl UniqueViolation
               else if (sender, receiver) \<in> set (map (\<lambda>r. (friendRequests_sender_id r,
                          friendRequests_receiver_id r)) (friendRequests d))
               then Inl UniqueViolation
               else if \<not> user_exists d sender \<or> \<not> user_exists d receiver
               then Inl ForeignKeyViolation
               else (let r = \<lparr>friendRequests_id = new_id, friendRequests_sender_id = sender,
                               friendRequests_receiver_id = receiver,
                               friendRequests_status = Pending,
                               friendRequests_created_at = now\<rparr>
                     in Inr (d\<lparr>friendRequests := friendRequests d @ [r]\<rparr>, [r]))))"

text \<open>
  The query of \<^verbatim>\<open>GET /api/protected/friends/friend-requests\<close>: the requests joined with the
  users on \<^verbatim>\<open>sender_id = users.id\<close>, where \<^verbatim>\<open>receiver_id = userId\<close> and
  \<^verbatim>\<open>status = 'pending'\<close>.
\<close>

definition select_incoming :: "db \<Rightarrow> string \<Rightarrow> store_error + incomingRequest list" where
  "select_incoming d user_text =
     (case string_to_uuid user_text of
        None \<Rightarrow> Inl InvalidTextRepresentation
      | Some uid \<Rightarrow>
          Inr [\<lparr>request = r, sender_email = users_email u\<rparr>.
                 r \<leftarrow> friendRequests d, u \<leftarrow> users d,
                 friendRequests_sender_id r = users_id u,
                 friendRequests_receiver_id r = uid \<and> friendRequests_status r = Pending])"

text \<open>
  \<^verbatim>\<open>db.update(friendRequests).set({status: 'accepted'}).where(and(eq(friendRequests.id, requestId), eq(friendRequests.receiver_id, userId))).returning()\<close>.
\<close>

definition accept_matches :: "uuid \<Rightarrow> uuid \<Rightarrow> friendRequest \<Rightarrow> bool" where
  "accept_matches requestId userId r =
     (friendRequests_id r = requestId \<and> friendRequests_receiver_id r = userId)"

definition update_friendRequests ::
  "db \<Rightarrow> string \<Rightarrow> string \<Rightarrow> store_error + db \<times> friendRequest list" where
  "update_friendRequests d request_text user_text =
     (case string_to_uuid request_text of
        None \<Rightarrow> Inl InvalidTextRepresentation
      | Some requestId \<Rightarrow>
          (case string_to_uuid user_text of
             None \<Rightarrow> Inl InvalidTextRepresentation
           | Some userId \<Rightarrow>
               Inr (d\<lparr>friendRequests :=
                        map (\<lambda>r. if accept_matches requestId userId r
                                 then r\<lparr>friendRequests_status := Accepted\<rparr> else r)
                          (friendRequests d)\<rparr>,
                    map (\<lambda>r. r\<lparr>friendRequests_status := Accepted\<rparr>)
                      (filter (accept_matches requestId userId) (friendRequests d)))))"

text \<open>\<^verbatim>\<open>db.delete(friendRequests).where(eq(friendRequests.id, requestId)).returning()\<close>.\<close>

definition delete_friendRequests :: "db \<Rightarrow> string \<Rightarrow> store_error + db \<times> friendRequest list" where
  "delete_friendRequests d request_text =
     (case string_to_uuid request_text of
        None \<Rightarrow> Inl InvalidTextRepresentation
      | Some requestId \<Rightarrow>
          Inr (d\<lparr>friendRequests :=
                   filter (\<lambda>r. friendRequests_id r \<noteq> requestId) (friendRequests d)\<rparr>,
               filter (\<lambda>r. friendRequests_id r = requestId) (friendRequests d)))"

text \<open>
  The two queries of \<^verbatim>\<open>GET /api/protected/friends/messages/:friendId\<close>. The friendship check
  selects the requests with \<^verbatim>\<open>sender_id = friendId\<close> and \<^verbatim>\<open>status = 'accepted'\<close>; the
  secrets query joins the requests with the users on
  \<^verbatim>\<open>sender_id = users.id OR receiver_id = users.id\<close> and with the secrets on
  \<^verbatim>\<open>secretMessages.user_id = users.id\<close>, where \<^verbatim>\<open>receiver_id = userId\<close> and
  \<^verbatim>\<open>status = 'accepted'\<close>.
\<close>

definition accepted_from :: "db \<Rightarrow> uuid \<Rightarrow> friendRequest list" where
  "accepted_from d friend =
     filter (\<lambda>r. friendRequests_sender_id r = friend \<and> friendRequests_status r = Accepted)
       (friendRequests d)"

definition friendship :: "db \<Rightarrow> string \<Rightarrow> store_error + friendRequest list" where
  "friendship d friendId =
     (case string_to_uuid friendId of
        None \<Rightarrow> Inl InvalidTextRepresentation
      | Some friend \<Rightarrow> Inr (accepted_from d friend))"

definition friendsSecrets :: "db \<Rightarrow> string \<Rightarrow> store_error + friendSecret list" where
  "friendsSecrets d userId =
     (case string_to_uuid userId of
        None \<Rightarrow> Inl InvalidTextRepresentation
      | Some viewer \<Rightarrow>
          Inr [\<lparr>row_sender_id = friendRequests_sender_id r,
                 row_receiver_id = friendRequests_receiver_id r,
                 row_friend_email = users_email u, row_friend_secret = secretMessages_content m,
                 row_secret_message_id = secretMessages_id m,
                 row_created_at = friendRequests_created_at r\<rparr>.
                 r \<leftarrow> friendRequests d, u \<leftarrow> users d,
                 friendRequests_sender_id r = users_id u
                   \<or> friendRequests_receiver_id r = users_id u,
                 m \<leftarrow> secretMessages d, secretMessages_user_id m = users_id u,
                 friendRequests_receiver_id r = viewer \<and> friendRequests_status r = Accepted])"

section \<open>The handlers\<close>

text \<open>
  Each handler runs its statements inside \<^verbatim>\<open>try\<close> and answers 500 from \<^verbatim>\<open>catch\<close> when
  one of them raises; the store is then as it was.
\<close>

text \<open>
  \<^verbatim>\<open>authMiddleware\<close>, mounted on \<^verbatim>\<open>/api/protected\<close>: a request without a non-empty
  \<^verbatim>\<open>x-user-id\<close> header is answered 401; otherwise the header is the user id of the request.
\<close>

definition authMiddleware :: "string option \<Rightarrow> reply + string" where
  "authMiddleware header =
     (case header of
        None \<Rightarrow> Inl (Reply 401 None NoData)
      | Some userId \<Rightarrow> if userId = [] then Inl (Reply 401 None NoData) else Inr userId)"

text \<open>\<^verbatim>\<open>POST /api/protected/users\<close>\<close>

definition createUser :: "db \<Rightarrow> timestamp \<Rightarrow> string \<Rightarrow> jsstring option \<Rightarrow> db \<times> reply" where
  "createUser d now authenticatedUserId email =
     (case insert_users d authenticatedUserId email now of
        Inl e \<Rightarrow> (d, Reply 500 (Some ''error'') NoData)
      | Inr (d', rows) \<Rightarrow>
          (case first_row rows of
             None \<Rightarrow> (d', Reply 200 (Some ''exists'') NoData)
           | Some user \<Rightarrow> (d', Reply 201 (Some ''created'') (UserRow user))))"

text \<open>\<^verbatim>\<open>DELETE /api/protected/users/:userId\<close>\<close>

definition deleteUser :: "db \<Rightarrow> string \<Rightarrow> db \<times> reply" where
  "deleteUser d userId =
     (case delete_users d userId of
        Inl e \<Rightarrow> (d, Reply 500 (Some ''error'') NoData)
      | Inr (d', deletedUser) \<Rightarrow>
          (case deletedUser of
             [] \<Rightarrow> (d', Reply 404 (Some ''not_found'') NoData)
           | u # _ \<Rightarrow> (d', Reply 200 (Some ''deleted'') (UserRow u))))"

text \<open>
  \<^verbatim>\<open>POST /api/protected/secret\<close>. The validation is
  \<^verbatim>\<open>!userId || typeof content !== 'string' || content.trim() === ''\<close>.
\<close>

definition createSecret :: "db \<Rightarrow> timestamp \<Rightarrow> uuid \<Rightarrow> string \<Rightarrow> jsvalue \<Rightarrow> db \<times> reply" where
  "createSecret d now new_id userId content =
     (case content of
        JString c \<Rightarrow>
          if userId = [] \<or> trim c = [] then (d, Reply 400 (Some ''invalid_request'') NoData)
          else (case insert_secretMessages d new_id userId (trim c) now of
                  Inl e \<Rightarrow> (d, Reply 500 (Some ''server_error'') NoData)
                | Inr (d', rows) \<Rightarrow>
                    (case first_row rows of
                       None \<Rightarrow> (d', Reply 500 (Some ''insert_failed'') NoData)
                     | Some secret \<Rightarrow> (d', Reply 201 (Some ''created'') (SecretRow secret))))
      | _ \<Rightarrow> (d, Reply 400 (Some ''invalid_request'') NoData))"

text \<open>\<^verbatim>\<open>GET /api/protected/secret-message\<close>\<close>

definition listSecrets :: "db \<Rightarrow> string \<Rightarrow> reply" where
  "listSecrets d userId =
     (if userId = [] then Reply 401 (Some ''unauthorized'') NoData
      else (case select_secretMessages d userId of
              Inl e \<Rightarrow> Reply 500 (Some ''server_error'') NoData
            | Inr messages \<Rightarrow> Reply 200 (Some ''fetched'') (SecretRows messages)))"

text \<open>
  \<^verbatim>\<open>PUT /api/protected/secret/:id\<close>. The validation is
  \<^verbatim>\<open>!userId || !id || typeof content !== 'string' || content.trim() === ''\<close>; the update
  is \<^verbatim>\<open>.where(eq(schema.secretMessages.id, id))\<close>.
\<close>

definition updateSecret :: "db \<Rightarrow> timestamp \<Rightarrow> string \<Rightarrow> jsvalue \<Rightarrow> string \<Rightarrow> db \<times> reply" where
  "updateSecret d now sid content userId =
     (case content of
        JString c \<Rightarrow>
          if userId = [] \<or> sid = [] \<or> trim c = []
          then (d, Reply 400 (Some ''invalid_request'') NoData)
          else (case update_secretMessages d sid (trim c) now of
                  Inl e \<Rightarrow> (d, Reply 500 (Some ''server_error'') NoData)
                | Inr (d', updated) \<Rightarrow>
                    (case updated of
                       [] \<Rightarrow> (d', Reply 404 (Some ''not_found'') NoData)
                     | m # _ \<Rightarrow> (d', Reply 200 (Some ''updated'') (SecretRow m))))
      | _ \<Rightarrow> (d, Reply 400 (Some ''invalid_request'') NoData))"

text \<open>
  \<^verbatim>\<open>POST /api/protected/add-friend\<close>. \<open>receiver_id\<close> is the body's field, \<open>None\<close>
  when the body has none. The validation \<^verbatim>\<open>!receiver_id || receiver_id === sender_id\<close>
  compares the two texts.
\<close>

definition sendRequest ::
  "db \<Rightarrow> timestamp \<Rightarrow> uuid \<Rightarrow> string \<Rightarrow> string option \<Rightarrow> db \<times> reply" where
  "sendRequest d now new_id sender_id receiver_id =
     (case receiver_id of
        None \<Rightarrow> (d, Reply 400 None NoData)
      | Some receiver \<Rightarrow>
          if receiver = [] \<or> receiver = sender_id then (d, Reply 400 None NoData)
          else (case findFirst_friendRequests d sender_id receiver of
                  Inl e \<Rightarrow> (d, Reply 500 None NoData)
                | Inr (Some existing) \<Rightarrow> (d, Reply 409 None NoData)
                | Inr None \<Rightarrow>
                    (case insert_friendRequests d new_id sender_id receiver now of
                       Inl e \<Rightarrow> (d, Reply 500 None NoData)
                     | Inr (d', rows) \<Rightarrow> (d', Reply 200 None (RequestRowOpt (first_row rows))))))"

text \<open>\<^verbatim>\<open>GET /api/protected/friends/friend-requests\<close>\<close>

definition listIncomingPending :: "db \<Rightarrow> string \<Rightarrow> reply" where
  "listIncomingPending d userId =
     (case select_incoming d userId of
        Inl e \<Rightarrow> Reply 500 None NoData
      | Inr requests \<Rightarrow> Reply 200 None (IncomingRequests requests))"

text \<open>\<^verbatim>\<open>POST /api/protected/friends/accept\<close>\<close>

definition acceptRequest :: "db \<Rightarrow> string \<Rightarrow> string \<Rightarrow> db \<times> reply" where
  "acceptRequest d requestId userId =
     (case update_friendRequests d requestId userId of
        Inl e \<Rightarrow> (d, Reply 500 None NoData)
      | Inr (d', rows) \<Rightarrow> (d', Reply 200 None (RequestRowOpt (first_row rows))))"

text \<open>\<^verbatim>\<open>DELETE /api/protected/friends/:requestId\<close>\<close>

definition deleteRequest :: "db \<Rightarrow> string \<Rightarrow> string \<Rightarrow> db \<times> reply" where
  "deleteRequest d requestId userId =
     (case delete_friendRequests d requestId of
        Inl e \<Rightarrow> (d, Reply 500 (Some ''error'') NoData)
      | Inr (d', deletedRequest) \<Rightarrow>
          (case deletedRequest of
             [] \<Rightarrow> (d', Reply 404 (Some ''not_found'') NoData)
           | r # _ \<Rightarrow> (d', Reply 200 (Some ''deleted'') (RequestRow r))))"

text \<open>
  \<^verbatim>\<open>GET /api/protected/friends/messages/:friendId\<close>: the friendship check, the 401 when
  it selects nothing, then the secrets query.
\<close>

definition getFriendSecrets :: "db \<Rightarrow> string \<Rightarrow> string \<Rightarrow> reply" where
  "getFriendSecrets d userId friendId =
     (case friendship d friendId of
        Inl e \<Rightarrow> Reply 500 (Some ''server_error'') NoData
      | Inr rows \<Rightarrow>
          if length rows = 0 then Reply 401 (Some ''Unauthorized'') NoData
          else (case friendsSecrets d userId of
                  Inl e \<Rightarrow> Reply 500 (Some ''server_error'') NoData
                | Inr secrets \<Rightarrow> Reply 200 (Some ''retrieved'') (FriendSecrets secrets)))"

text \<open>The route: the middleware, then the handler.\<close>

definition GET_friends_messages :: "db \<Rightarrow> string option \<Rightarrow> string \<Rightarrow> reply" where
  "GET_friends_messages d header friendId =
     (case authMiddleware header of
        Inl r \<Rightarrow> r
      | Inr userId \<Rightarrow> getFriendSecrets d userId friendId)"

section \<open>Reachable states\<close>

text \<open>
  The states of the store that the handlers produce from the empty tables, one request
  after another.
\<close>

inductive reachable :: "db \<Rightarrow> bool" where
  reachable_empty: "reachable empty_db"
| reachable_createUser: "reachable d \<Longrightarrow> reachable (fst (createUser d now uid email))"
| reachable_deleteUser: "reachable d \<Longrightarrow> reachable (fst (deleteUser d uid))"
| reachable_createSecret:
    "reachable d \<Longrightarrow> reachable (fst (createSecret d now new_id uid content))"
| reachable_updateSecret:
    "reachable d \<Longrightarrow> reachable (fst (updateSecret d now sid content uid))"
| reachable_sendRequest:
    "reachable d \<Longrightarrow> reachable (fst (sendRequest d now new_id sender receiver))"
| reachable_acceptRequest: "reachable d \<Longrightarrow> reachable (fst (acceptRequest d requestId uid))"
| reachable_deleteRequest: "reachable d \<Longrightarrow> reachable (fst (deleteRequest d requestId uid))"

text \<open>The ordered pairs (sender_id, receiver_id) of the stored requests.\<close>

definition pairs :: "db \<Rightarrow> (uuid \<times> uuid) list" where
  "pairs d = map (\<lambda>r. (friendRequests_sender_id r, friendRequests_receiver_id r)) (friendRequests d)"

section \<open>Example states\<close>

text \<open>
  Three users; Alice and Bob each hold one secret. In \<open>pending_db\<close> Alice has sent Bob a
  request; in \<open>friends_db\<close> Bob has accepted it, and Carol has accepted one sent by Bob.
  Each id has its value and the text a request carries it in; \<open>alice_upper\<close> is Alice's id
  in upper case, \<open>nope\<close> is not the text of a uuid.
\<close>

definition alice_id :: uuid where "alice_id = 0xa11ce000000040008000000000000001"
definition bob_id :: uuid where "bob_id = 0xb0b00000000040008000000000000002"
definition carol_id :: uuid where "carol_id = 0xca201000000040008000000000000003"
definition dave_id :: uuid where "dave_id = 0xda7e0000000040008000000000000004"
definition secret_a_id :: uuid where "secret_a_id = 0x5ec2e70000004000800000000000000a"
definition secret_b_id :: uuid where "secret_b_id = 0x5ec2e70000004000800000000000000b"
definition req_ab_id :: uuid where "req_ab_id = 0xf21e4d000000400080000000000000ab"
definition req_bc_id :: uuid where "req_bc_id = 0xf21e4d000000400080000000000000bc"
definition req_aa_id :: uuid where "req_aa_id = 0xf21e4d000000400080000000000000aa"

definition alice :: string where "alice = ''a11ce000-0000-4000-8000-000000000001''"
definition alice_upper :: string where "alice_upper = ''A11CE000-0000-4000-8000-000000000001''"
definition bob :: string where "bob = ''b0b00000-0000-4000-8000-000000000002''"
definition carol :: string where "carol = ''ca201000-0000-4000-8000-000000000003''"
definition dave :: string where "dave = ''da7e0000-0000-4000-8000-000000000004''"
definition secret_a :: string where "secret_a = ''5ec2e700-0000-4000-8000-00000000000a''"
definition req_ab :: string where "req_ab = ''f21e4d00-0000-4000-8000-0000000000ab''"
definition req_bc :: string where "req_bc = ''f21e4d00-0000-4000-8000-0000000000bc''"
definition nope :: string where "nope = ''nope''"

text \<open>The texts \<^verbatim>\<open>a@x\<close>, \<^verbatim>\<open>b@x\<close>, \<^verbatim>\<open>c@x\<close>, \<^verbatim>\<open>hi\<close> and \<^verbatim>\<open>yo\<close>.\<close>

definition email_a :: jsstring where "email_a = [0x61, 0x40, 0x78]"
definition email_b :: jsstring where "email_b = [0x62, 0x40, 0x78]"
definition email_c :: jsstring where "email_c = [0x63, 0x40, 0x78]"
definition hi :: jsstring where "hi = [0x68, 0x69]"
definition yo :: jsstring where "yo = [0x79, 0x6F]"

definition people :: "user list" where
  "people = [\<lparr>users_id = alice_id, users_email = email_a, users_createdAt = 1001\<rparr>,
             \<lparr>users_id = bob_id, users_email = email_b, users_createdAt = 1002\<rparr>,
             \<lparr>users_id = carol_id, users_email = email_c, users_createdAt = 1003\<rparr>]"

definition secrets :: "secretMessage list" where
  "secrets = [\<lparr>secretMessages_id = secret_a_id, secretMessages_user_id = alice_id,
                secretMessages_content = hi, secretMessages_updated_at = 1010\<rparr>,
              \<lparr>secretMessages_id = secret_b_id, secretMessages_user_id = bob_id,
                secretMessages_content = yo, secretMessages_updated_at = 1020\<rparr>]"

definition people_db :: db where
  "people_db = \<lparr>users = people, secretMessages = secrets, friendRequests = []\<rparr>"

definition pending_db :: db where
  "pending_db = \<lparr>users = people, secretMessages = secrets, friendRequests =
     [\<lparr>friendRequests_id = req_ab_id, friendRequests_sender_id = alice_id,
       friendRequests_receiver_id = bob_id, friendRequests_status = Pending,
       friendRequests_created_at = 1030\<rparr>]\<rparr>"

definition friends_db :: db where
  "friends_db = \<lparr>users = people, secretMessages = secrets, friendRequests =
     [\<lparr>friendRequests_id = req_ab_id, friendRequests_sender_id = alice_id,
       friendRequests_receiver_id = bob_id, friendRequests_status = Accepted,
       friendRequests_created_at = 1030\<rparr>,
      \<lparr>friendRequests_id = req_bc_id, friendRequests_sender_id = bob_id,
       friendRequests_receiver_id = carol_id, friendRequests_status = Accepted,
       friendRequests_created_at = 1040\<rparr>]\<rparr>"

section \<open>The example states are reachable\<close>

lemma string_to_uuid_examples:
  "string_to_uuid alice = Some alice_id"
  "string_to_uuid alice_upper = Some alice_id"
  "string_to_uuid bob = Some bob_id"
  "string_to_uuid carol = Some carol_id"
  "string_to_uuid dave = Some dave_id"
  "string_to_uuid secret_a = Some secret_a_id"
  "string_to_uuid req_ab = Some req_ab_id"
  "string_to_uuid req_bc = Some req_bc_id"
  "string_to_uuid nope = None"
  by code_simp+

lemma people_db_steps:
  "people_db =
     fst (createSecret (fst (createSecret (fst (createUser (fst (createUser (fst (createUser
       empty_db 1001 alice (Some email_a))) 1002 bob (Some email_b))) 1003 carol (Some email_c)))
       1010 secret_a_id alice (JString hi))) 1020 secret_b_id bob (JString yo))"
  by code_simp

lemma reachable_people_db: "reachable people_db"
  unfolding people_db_steps
  by (intro reachable_createSecret reachable_createUser reachable_empty)

lemma pending_db_step: "pending_db = fst (sendRequest people_db 1030 req_ab_id alice (Some bob))"
  by code_simp

lemma reachable_pending_db: "reachable pending_db"
  unfolding pending_db_step by (intro reachable_sendRequest reachable_people_db)

lemma friends_db_steps:
  "friends_db = fst (acceptRequest (fst (sendRequest (fst (acceptRequest pending_db req_ab bob))
      1040 req_bc_id bob (Some carol))) req_bc carol)"
  by code_simp

lemma reachable_friends_db: "reachable friends_db"
  unfolding friends_db_steps
  by (intro reachable_acceptRequest reachable_sendRequest reachable_pending_db)

section \<open>Validation\<close>

lemma trim_all_whitespace:
  assumes "list_all isWhiteSpace c"
  shows "trim c = []"
proof -
  from assms have e: "dropWhile isWhiteSpace c = []" by (simp add: list_all_iff)
  show ?thesis unfolding trim_def e by simp
qed

lemma trim_empty_only_whitespace:
  assumes "trim c = []"
  shows "list_all isWhiteSpace c"
proof -
  let ?t = "dropWhile isWhiteSpace c"
  from assms have all: "\<forall>ch\<in>set ?t. isWhiteSpace ch" by (simp add: trim_def)
  have "?t = []"
  proof (rule ccontr)
    assume ne: "?t \<noteq> []"
    then have "\<not> isWhiteSpace (hd ?t)" by (rule hd_dropWhile)
    moreover from ne have "hd ?t \<in> set ?t" by simp
    ultimately show False using all by blast
  qed
  then show ?thesis by (simp add: list_all_iff)
qed

text \<open>
  C6. A content string that is empty or made of whitespace only (the code units that
  \<^verbatim>\<open>trim()\<close> removes) is answered 400 \<^verbatim>\<open>invalid_request\<close> by \<open>createSecret\<close> and by
  \<open>updateSecret\<close>, whatever the store holds, and the store is returned as it was: no
  statement is run, no row is inserted or modified.
\<close>

theorem blank_content_rejected:
  assumes "list_all isWhiteSpace c"
  shows "createSecret d now new_id userId (JString c)
           = (d, Reply 400 (Some ''invalid_request'') NoData)
       \<and> updateSecret d now sid (JString c) userId
           = (d, Reply 400 (Some ''invalid_request'') NoData)"
  using assms by (simp add: createSecret_def updateSecret_def trim_all_whitespace)

theorem blank_content_rejected_witness:
  "list_all isWhiteSpace [0x20, 0x09, 0x3000]
   \<and> createSecret friends_db 2000 dave_id alice (JString [0x20, 0x09, 0x3000])
       = (friends_db, Reply 400 (Some ''invalid_request'') NoData)
   \<and> updateSecret friends_db 2000 secret_a (JString [0x20, 0x09, 0x3000]) alice
       = (friends_db, Reply 400 (Some ''invalid_request'') NoData)"
proof -
  have h: "list_all isWhiteSpace [0x20, 0x09, 0x3000]" by (simp add: isWhiteSpace_def)
  show ?thesis
    using h blank_content_rejected [OF h, of friends_db 2000 dave_id alice secret_a]
    by blast
qed

text \<open>
  A request whose receiver is the very text of the header is answered 400 and the store is
  returned as it was.
\<close>

lemma sendRequest_same_text:
  "sendRequest d now new_id A (Some A) = (d, Reply 400 None NoData)"
  by (simp add: sendRequest_def)

text \<open>
  C7. The test for a request to oneself compares texts, the store compares uuid values.
  Alice, with her id in lower case in the header, names herself as receiver with the same
  id in upper case: the two texts differ and read as the same uuid, the call is answered
  200, and the edge from Alice to Alice is stored.
\<close>

theorem sendRequest_self_respelled:
  "alice_upper \<noteq> alice
 \<and> string_to_uuid alice_upper = string_to_uuid alice
 \<and> sendRequest people_db 1030 req_aa_id alice (Some alice_upper)
     = (people_db\<lparr>friendRequests :=
          [\<lparr>friendRequests_id = req_aa_id, friendRequests_sender_id = alice_id,
            friendRequests_receiver_id = alice_id, friendRequests_status = Pending,
            friendRequests_created_at = 1030\<rparr>]\<rparr>,
        Reply 200 None (RequestRowOpt (Some
          \<lparr>friendRequests_id = req_aa_id, friendRequests_sender_id = alice_id,
            friendRequests_receiver_id = alice_id, friendRequests_status = Pending,
            friendRequests_created_at = 1030\<rparr>)))"
  by code_simp

section \<open>Users\<close>

text \<open>
  C9. Creating a user twice with the same id, from a state where the id is free: the id is
  the text of a uuid, spelled in the second call as in the first or otherwise, and both
  emails are strings without the code unit 0. The first call answers 201 \<^verbatim>\<open>created\<close> and
  stores the row, the second answers 200 \<^verbatim>\<open>exists\<close> and returns the store as the first
  call left it; the stored row keeps the email of the first call, as the store holds it, and
  its time, also when the second call carries another email.
\<close>

theorem createUser_idempotent:
  assumes "string_to_uuid uid = Some u" and "string_to_uuid uid' = Some u"
    and "\<not> user_exists d u" and "0 \<notin> set e1" and "0 \<notin> set e2"
  shows "createUser d now1 uid (Some e1)
           = (d\<lparr>users := users d
                @ [\<lparr>users_id = u, users_email = toWellFormed e1, users_createdAt = now1\<rparr>]\<rparr>,
              Reply 201 (Some ''created'')
                (UserRow \<lparr>users_id = u, users_email = toWellFormed e1, users_createdAt = now1\<rparr>))
       \<and> createUser (fst (createUser d now1 uid (Some e1))) now2 uid' (Some e2)
           = (fst (createUser d now1 uid (Some e1)), Reply 200 (Some ''exists'') NoData)
       \<and> filter (\<lambda>x. users_id x = u)
            (users (fst (createUser (fst (createUser d now1 uid (Some e1))) now2 uid' (Some e2))))
           = [\<lparr>users_id = u, users_email = toWellFormed e1, users_createdAt = now1\<rparr>]"
proof -
  let ?u = "\<lparr>users_id = u, users_email = toWellFormed e1, users_createdAt = now1\<rparr>"
  let ?d1 = "d\<lparr>users := users d @ [?u]\<rparr>"
  from assms
  have first: "createUser d now1 uid (Some e1) = (?d1, Reply 201 (Some ''created'') (UserRow ?u))"
    by (simp add: createUser_def insert_users_def text_in_def first_row_def Let_def)
  have "user_exists ?d1 u" by (simp add: user_exists_def)
  with assms
  have second: "createUser ?d1 now2 uid' (Some e2) = (?d1, Reply 200 (Some ''exists'') NoData)"
    by (simp add: createUser_def insert_users_def text_in_def first_row_def)
  from assms have none: "filter (\<lambda>x. users_id x = u) (users d) = []"
    by (auto simp add: user_exists_def filter_empty_conv)
  show ?thesis using first second none by simp
qed

theorem createUser_idempotent_witness:
  "string_to_uuid alice = Some alice_id \<and> string_to_uuid alice_upper = Some alice_id
   \<and> \<not> user_exists empty_db alice_id \<and> 0 \<notin> set email_a \<and> 0 \<notin> set email_b
   \<and> createUser empty_db 1001 alice (Some email_a)
       = (empty_db\<lparr>users := users empty_db
            @ [\<lparr>users_id = alice_id, users_email = toWellFormed email_a,
                 users_createdAt = 1001\<rparr>]\<rparr>,
          Reply 201 (Some ''created'')
            (UserRow \<lparr>users_id = alice_id, users_email = toWellFormed email_a,
               users_createdAt = 1001\<rparr>))
   \<and> createUser (fst (createUser empty_db 1001 alice (Some email_a))) 1002 alice_upper
        (Some email_b)
       = (fst (createUser empty_db 1001 alice (Some email_a)), Reply 200 (Some ''exists'') NoData)
   \<and> filter (\<lambda>x. users_id x = alice_id)
        (users (fst (createUser (fst (createUser empty_db 1001 alice (Some email_a)))
           1002 alice_upper (Some email_b))))
       = [\<lparr>users_id = alice_id, users_email = toWellFormed email_a, users_createdAt = 1001\<rparr>]"
proof -
  have h1: "string_to_uuid alice = Some alice_id" by code_simp
  have h2: "string_to_uuid alice_upper = Some alice_id" by code_simp
  have h3: "\<not> user_exists empty_db alice_id" by (simp add: user_exists_def empty_db_def)
  have h4: "0 \<notin> set email_a" by (simp add: email_a_def)
  have h5: "0 \<notin> set email_b" by (simp add: email_b_def)
  show ?thesis
    using h1 h2 h3 h4 h5 createUser_idempotent [OF h1 h2 h3 h4 h5, of 1001 1002]
    by blast
qed

text \<open>
  C10. For an id that is the text of a uuid: deleting a user that exists answers 200, and
  afterwards the user, every secret it owned and every request it sent or received are
  gone; the secrets of the other users stay. Deleting an id that no user has answers 404
  \<^verbatim>\<open>not_found\<close> and returns the store as it was.
\<close>

theorem deleteUser_cascades:
  assumes "string_to_uuid userId = Some A"
  shows "(code (snd (deleteUser d userId)) = 200 \<longrightarrow>
      filter (\<lambda>u. users_id u = A) (users (fst (deleteUser d userId))) = []
    \<and> filter (\<lambda>m. secretMessages_user_id m = A) (secretMessages (fst (deleteUser d userId))) = []
    \<and> filter (\<lambda>r. friendRequests_sender_id r = A \<or> friendRequests_receiver_id r = A)
        (friendRequests (fst (deleteUser d userId))) = []
    \<and> filter (\<lambda>m. secretMessages_user_id m \<noteq> A) (secretMessages (fst (deleteUser d userId)))
        = filter (\<lambda>m. secretMessages_user_id m \<noteq> A) (secretMessages d))
 \<and> (user_exists d A \<longrightarrow> code (snd (deleteUser d userId)) = 200)
 \<and> (\<not> user_exists d A \<longrightarrow> deleteUser d userId = (d, Reply 404 (Some ''not_found'') NoData))"
proof (cases "filter (\<lambda>u. users_id u = A) (users d)")
  case Nil
  then have "\<not> user_exists d A" by (auto simp add: user_exists_def filter_empty_conv)
  with Nil assms show ?thesis by (simp add: deleteUser_def delete_users_def)
next
  case (Cons u us)
  then have "user_exists d A"
    by (metis (mono_tags, lifting) filter_empty_conv list.distinct(1) user_exists_def
        image_eqI set_map)
  with Cons assms show ?thesis
    by (auto simp add: deleteUser_def delete_users_def filter_empty_conv)
qed

theorem deleteUser_cascades_witness:
  "string_to_uuid bob = Some bob_id
   \<and> code (snd (deleteUser friends_db bob)) = 200
   \<and> filter (\<lambda>u. users_id u = bob_id) (users (fst (deleteUser friends_db bob))) = []
   \<and> filter (\<lambda>m. secretMessages_user_id m = bob_id)
        (secretMessages (fst (deleteUser friends_db bob))) = []
   \<and> filter (\<lambda>r. friendRequests_sender_id r = bob_id \<or> friendRequests_receiver_id r = bob_id)
        (friendRequests (fst (deleteUser friends_db bob))) = []
   \<and> string_to_uuid dave = Some dave_id
   \<and> \<not> user_exists friends_db dave_id
   \<and> deleteUser friends_db dave = (friends_db, Reply 404 (Some ''not_found'') NoData)"
proof -
  have p1: "string_to_uuid bob = Some bob_id" by code_simp
  have p2: "string_to_uuid dave = Some dave_id" by code_simp
  have h1: "code (snd (deleteUser friends_db bob)) = 200" by code_simp
  have h2: "\<not> user_exists friends_db dave_id" by code_simp
  show ?thesis
    using p1 p2 h1 h2 deleteUser_cascades [OF p1, of friends_db]
      deleteUser_cascades [OF p2, of friends_db]
    by blast
qed

section \<open>Friend requests\<close>

subsection \<open>What each handler does to the requests\<close>

lemma friendRequests_createUser:
  "friendRequests (fst (createUser d now uid email)) = friendRequests d"
  by (simp add: createUser_def insert_users_def first_row_def Let_def split: option.splits)

lemma friendRequests_createSecret:
  "friendRequests (fst (createSecret d now new_id uid content)) = friendRequests d"
  by (simp add: createSecret_def insert_secretMessages_def first_row_def Let_def
      split: jsvalue.splits option.splits)

lemma friendRequests_updateSecret:
  "friendRequests (fst (updateSecret d now sid content uid)) = friendRequests d"
  by (simp add: updateSecret_def update_secretMessages_def
      split: jsvalue.splits list.splits option.splits)

lemma pairs_deleteUser:
  "distinct (pairs d) \<Longrightarrow> distinct (pairs (fst (deleteUser d uid)))"
  by (simp add: deleteUser_def delete_users_def pairs_def distinct_map_filter Let_def
      split: list.splits option.splits)

lemma pairs_deleteRequest:
  "distinct (pairs d) \<Longrightarrow> distinct (pairs (fst (deleteRequest d requestId uid)))"
  by (simp add: deleteRequest_def delete_friendRequests_def pairs_def distinct_map_filter
      split: list.splits option.splits)

lemma pairs_acceptRequest: "pairs (fst (acceptRequest d requestId uid)) = pairs d"
  by (simp add: acceptRequest_def update_friendRequests_def pairs_def comp_def if_distrib
      split: option.splits cong: if_cong)

lemma pairs_sendRequest:
  "distinct (pairs d) \<Longrightarrow> distinct (pairs (fst (sendRequest d now new_id sender receiver)))"
  by (auto simp add: sendRequest_def insert_friendRequests_def findFirst_friendRequests_def
        pairs_def Let_def
      split: option.splits)

subsection \<open>The unique pair\<close>

lemma reachable_distinct_pairs: "reachable d \<Longrightarrow> distinct (pairs d)"
proof (induction rule: reachable.induct)
  case reachable_empty
  show ?case by (simp add: pairs_def empty_db_def)
next
  case (reachable_createUser d now uid email)
  then show ?case by (simp add: pairs_def friendRequests_createUser)
next
  case (reachable_deleteUser d uid)
  then show ?case by (simp add: pairs_deleteUser)
next
  case (reachable_createSecret d now new_id uid content)
  then show ?case by (simp add: pairs_def friendRequests_createSecret)
next
  case (reachable_updateSecret d now sid content uid)
  then show ?case by (simp add: pairs_def friendRequests_updateSecret)
next
  case (reachable_sendRequest d now new_id sender receiver)
  then show ?case by (simp add: pairs_sendRequest)
next
  case (reachable_acceptRequest d requestId uid)
  then show ?case by (simp add: pairs_acceptRequest)
next
  case (reachable_deleteRequest d requestId uid)
  then show ?case by (simp add: pairs_deleteRequest)
qed

lemma distinct_map_filter_le_1:
  "distinct (map f xs) \<Longrightarrow> length (filter (\<lambda>x. f x = y) xs) \<le> 1"
proof (induction xs)
  case Nil
  show ?case by simp
next
  case (Cons x xs)
  show ?case
  proof (cases "f x = y")
    case True
    with Cons.prems have "y \<notin> f ` set xs" by simp
    then have "\<forall>z\<in>set xs. f z \<noteq> y" by blast
    then have "filter (\<lambda>x. f x = y) xs = []" by (simp add: filter_empty_conv)
    with True show ?thesis by simp
  next
    case False
    with Cons show ?thesis by simp
  qed
qed

lemma edges_le_1:
  assumes "distinct (pairs d)"
  shows "length (edges d a b) \<le> 1"
proof -
  from assms
  have "length (filter (\<lambda>r. (friendRequests_sender_id r, friendRequests_receiver_id r) = (a, b))
          (friendRequests d)) \<le> 1"
    unfolding pairs_def by (rule distinct_map_filter_le_1)
  then show ?thesis by (simp add: edges_def)
qed

lemma findFirst_edges:
  assumes "string_to_uuid A = Some a" "string_to_uuid B = Some b"
  shows "findFirst_friendRequests d A B = Inr None \<longleftrightarrow> edges d a b = []"
  using assms
  by (simp add: findFirst_friendRequests_def first_row_def split: list.splits)

lemma sendRequest_parses:
  assumes "code (snd (sendRequest d now new_id A (Some B))) \<in> {200, 409}"
  shows "\<exists>a b. string_to_uuid A = Some a \<and> string_to_uuid B = Some b"
  using assms
  by (auto simp add: sendRequest_def findFirst_friendRequests_def
      split: option.splits if_splits)

lemma sendRequest_leaves_edge:
  assumes "code (snd (sendRequest d now new_id A (Some B))) \<in> {200, 409}"
    and "string_to_uuid A = Some a" "string_to_uuid B = Some b"
  shows "edges (fst (sendRequest d now new_id A (Some B))) a b \<noteq> []"
  using assms
  by (auto simp add: sendRequest_def insert_friendRequests_def Let_def edges_def
         findFirst_friendRequests_def first_row_def
      split: option.splits if_splits list.splits)

lemma sendRequest_conflict:
  assumes "string_to_uuid A = Some a" "string_to_uuid B = Some b"
    and "edges d a b \<noteq> []" "B \<noteq> A"
  shows "sendRequest d now new_id A (Some B) = (d, Reply 409 None NoData)"
proof -
  from assms have "B \<noteq> []" by (auto simp add: string_to_uuid_def)
  moreover from assms obtain r rs where "edges d a b = r # rs"
    by (auto simp add: neq_Nil_conv)
  with assms have "findFirst_friendRequests d A B = Inr (Some r)"
    by (simp add: findFirst_friendRequests_def first_row_def)
  ultimately show ?thesis using assms by (simp add: sendRequest_def)
qed

lemma sendRequest_valid:
  assumes "code (snd (sendRequest d now new_id A (Some B))) \<in> {200, 409}"
  shows "B \<noteq> A"
  using assms by (auto simp add: sendRequest_def split: if_splits)

lemma sendRequest_accepted:
  assumes "string_to_uuid A = Some a" "string_to_uuid B = Some b" "B \<noteq> A"
    and "user_exists d a" "user_exists d b"
    and "id1 \<notin> set (map friendRequests_id (friendRequests d))"
  shows "code (snd (sendRequest d now id1 A (Some B))) \<in> {200, 409}"
proof (cases "edges d a b = []")
  case False
  with assms show ?thesis by (simp add: sendRequest_conflict)
next
  case True
  with assms have none: "findFirst_friendRequests d A B = Inr None"
    by (simp add: findFirst_edges)
  from True
  have "(a, b) \<notin> set (map (\<lambda>r. (friendRequests_sender_id r, friendRequests_receiver_id r))
                 (friendRequests d))"
    by (auto simp add: edges_def filter_empty_conv)
  moreover from assms have "B \<noteq> []" by (auto simp add: string_to_uuid_def)
  ultimately show ?thesis using none assms
    by (simp add: sendRequest_def insert_friendRequests_def Let_def)
qed

text \<open>
  C8. In every reachable state at most one request exists for an ordered pair (sender,
  receiver). A request from A to B, two different texts that are the ids of existing users,
  with a fresh row id, is answered 200, or 409 when the edge is there already. When a
  request from A to B is sent twice in a row and the first call is answered 200 or 409 (it
  is neither rejected as invalid nor failed by the store), the second call answers 409,
  whatever id and time it would have used, it leaves the store as it was, and exactly one
  edge from A to B exists.
\<close>

theorem sendRequest_twice_conflict:
  assumes "reachable d"
  shows "length (edges d a b) \<le> 1
       \<and> (string_to_uuid A = Some a' \<and> string_to_uuid B = Some b' \<and> B \<noteq> A
            \<and> user_exists d a' \<and> user_exists d b'
            \<and> id1 \<notin> set (map friendRequests_id (friendRequests d)) \<longrightarrow>
            code (snd (sendRequest d now1 id1 A (Some B))) \<in> {200, 409})
       \<and> (code (snd (sendRequest d now1 id1 A (Some B))) \<in> {200, 409} \<longrightarrow>
            sendRequest (fst (sendRequest d now1 id1 A (Some B))) now2 id2 A (Some B)
              = (fst (sendRequest d now1 id1 A (Some B)), Reply 409 None NoData)
          \<and> (\<exists>sender receiver.
                string_to_uuid A = Some sender \<and> string_to_uuid B = Some receiver
              \<and> length (edges (fst (sendRequest d now1 id1 A (Some B))) sender receiver) = 1))"
proof (intro conjI impI)
  from assms show "length (edges d a b) \<le> 1"
    by (intro edges_le_1 reachable_distinct_pairs)
next
  assume "string_to_uuid A = Some a' \<and> string_to_uuid B = Some b' \<and> B \<noteq> A
            \<and> user_exists d a' \<and> user_exists d b'
            \<and> id1 \<notin> set (map friendRequests_id (friendRequests d))"
  then show "code (snd (sendRequest d now1 id1 A (Some B))) \<in> {200, 409}"
    by (intro sendRequest_accepted [of A a' B b']) simp_all
next
  let ?d1 = "fst (sendRequest d now1 id1 A (Some B))"
  assume ok: "code (snd (sendRequest d now1 id1 A (Some B))) \<in> {200, 409}"
  then obtain s r where p: "string_to_uuid A = Some s" "string_to_uuid B = Some r"
    using sendRequest_parses by blast
  with ok have ne: "edges ?d1 s r \<noteq> []" by (intro sendRequest_leaves_edge)
  from ok have "B \<noteq> A" by (rule sendRequest_valid)
  with ne p show "sendRequest ?d1 now2 id2 A (Some B) = (?d1, Reply 409 None NoData)"
    by (simp add: sendRequest_conflict)
  from assms have "reachable ?d1" by (rule reachable_sendRequest)
  then have "length (edges ?d1 s r) \<le> 1" by (intro edges_le_1 reachable_distinct_pairs)
  moreover from ne have "length (edges ?d1 s r) \<noteq> 0" by simp
  ultimately have "length (edges ?d1 s r) = 1" by arith
  with p show "\<exists>sender receiver.
                string_to_uuid A = Some sender \<and> string_to_uuid B = Some receiver
              \<and> length (edges ?d1 sender receiver) = 1" by blast
qed

theorem sendRequest_twice_conflict_witness:
  "reachable people_db
   \<and> (string_to_uuid alice = Some alice_id \<and> string_to_uuid bob = Some bob_id \<and> bob \<noteq> alice
        \<and> user_exists people_db alice_id \<and> user_exists people_db bob_id
        \<and> req_ab_id \<notin> set (map friendRequests_id (friendRequests people_db)))
   \<and> length (edges people_db alice_id bob_id) \<le> 1
   \<and> code (snd (sendRequest people_db 1030 req_ab_id alice (Some bob))) \<in> {200, 409}
   \<and> sendRequest (fst (sendRequest people_db 1030 req_ab_id alice (Some bob)))
        1040 req_bc_id alice (Some bob)
       = (fst (sendRequest people_db 1030 req_ab_id alice (Some bob)), Reply 409 None NoData)
   \<and> length (edges (fst (sendRequest people_db 1030 req_ab_id alice (Some bob)))
        alice_id bob_id) = 1"
proof -
  have h: "reachable people_db" by (rule reachable_people_db)
  have v: "string_to_uuid alice = Some alice_id \<and> string_to_uuid bob = Some bob_id \<and> bob \<noteq> alice
        \<and> user_exists people_db alice_id \<and> user_exists people_db bob_id
        \<and> req_ab_id \<notin> set (map friendRequests_id (friendRequests people_db))"
    by code_simp
  show ?thesis
    using h v
      sendRequest_twice_conflict [OF h, of alice_id bob_id alice alice_id bob bob_id req_ab_id
        1030 1040 req_bc_id]
    by auto
qed

section \<open>Reading a friend's secrets\<close>

text \<open>
  C4. Whether the friend-secrets read answers 401 is the same for any two viewers: it
  answers 401 exactly when the target is the text of a uuid and no accepted request has it
  as its sender. Two viewers whose ids are the text of a uuid get the same reply code. The
  401 decision of the route is the same for any two non-empty \<^verbatim>\<open>x-user-id\<close> headers.
\<close>

theorem decision_independent_of_viewer:
  "(code (getFriendSecrets d V1 t) = 401) = (code (getFriendSecrets d V2 t) = 401)
 \<and> (code (getFriendSecrets d V1 t) = 401)
     = (case string_to_uuid t of None \<Rightarrow> False | Some friend \<Rightarrow> accepted_from d friend = [])
 \<and> (string_to_uuid V1 \<noteq> None \<and> string_to_uuid V2 \<noteq> None \<longrightarrow>
       code (getFriendSecrets d V1 t) = code (getFriendSecrets d V2 t))
 \<and> (V1 \<noteq> [] \<and> V2 \<noteq> [] \<longrightarrow>
       (code (GET_friends_messages d (Some V1) t) = 401)
        = (code (GET_friends_messages d (Some V2) t) = 401))"
  by (auto simp add: getFriendSecrets_def GET_friends_messages_def authMiddleware_def
        friendship_def friendsSecrets_def
      split: option.splits)

theorem decision_independent_of_viewer_witness:
  "(string_to_uuid bob \<noteq> None \<and> string_to_uuid carol \<noteq> None)
   \<and> (bob \<noteq> [] \<and> nope \<noteq> [])
   \<and> code (getFriendSecrets friends_db bob alice) = 200
   \<and> code (getFriendSecrets friends_db carol alice) = 200
   \<and> code (GET_friends_messages friends_db (Some bob) alice) \<noteq> 401
   \<and> code (GET_friends_messages friends_db (Some nope) alice) \<noteq> 401"
proof -
  have h: "string_to_uuid bob \<noteq> None \<and> string_to_uuid carol \<noteq> None" by code_simp
  have n: "bob \<noteq> [] \<and> nope \<noteq> []" by code_simp
  have c: "code (getFriendSecrets friends_db bob alice) = 200" by code_simp
  have r: "code (GET_friends_messages friends_db (Some bob) alice) \<noteq> 401" by code_simp
  show ?thesis
    using h n c r decision_independent_of_viewer [of friends_db bob alice carol]
      decision_independent_of_viewer [of friends_db bob alice nope]
    by simp
qed

text \<open>
  A viewer whose header is not the text of a uuid passes the friendship check, which does
  not bind it, and fails in the secrets query.
\<close>

lemma getFriendSecrets_malformed_viewer:
  "getFriendSecrets friends_db nope alice = Reply 500 (Some ''server_error'') NoData"
  by code_simp

text \<open>
  C2. The friendship check does not look at the viewer. In \<open>friends_db\<close> no request links
  Alice as sender to Carol as receiver, yet Carol asking for Alice's secrets is answered
  200; and with the accepted edge (sender Alice, receiver Bob), the reversed read, Alice
  asking for Bob's secrets, is answered 200 with no rows instead of 401, because Bob is the
  sender of another accepted request.
\<close>

theorem friendship_check_ignores_viewer:
  "edges friends_db alice_id carol_id = []
 \<and> code (getFriendSecrets friends_db carol alice) = 200
 \<and> edges friends_db bob_id alice_id = []
 \<and> getFriendSecrets friends_db alice bob = Reply 200 (Some ''retrieved'') (FriendSecrets [])"
  by code_simp

text \<open>
  C3. The secrets query does not look at the friend. Bob, the receiver of Alice's accepted
  request, asks for Alice's secrets and is answered two rows: Alice's secret and his own.
\<close>

theorem friendsSecrets_not_only_friend:
  "getFriendSecrets friends_db bob alice
     = Reply 200 (Some ''retrieved'')
         (FriendSecrets
            [\<lparr>row_sender_id = alice_id, row_receiver_id = bob_id, row_friend_email = email_a,
              row_friend_secret = hi, row_secret_message_id = secret_a_id,
              row_created_at = 1030\<rparr>,
             \<lparr>row_sender_id = alice_id, row_receiver_id = bob_id, row_friend_email = email_b,
              row_friend_secret = yo, row_secret_message_id = secret_b_id,
              row_created_at = 1030\<rparr>])"
  by code_simp

section \<open>Writes by another user\<close>

text \<open>
  C1. The update matches the row by its id alone. Bob updates the secret that Alice owns:
  the call is answered 200 \<^verbatim>\<open>updated\<close>, and the content and the time of Alice's row are
  replaced.
\<close>

theorem updateSecret_by_non_owner:
  "updateSecret friends_db 2000 secret_a (JString yo) bob
     = (friends_db\<lparr>secretMessages :=
          [\<lparr>secretMessages_id = secret_a_id, secretMessages_user_id = alice_id,
            secretMessages_content = yo, secretMessages_updated_at = 2000\<rparr>,
           \<lparr>secretMessages_id = secret_b_id, secretMessages_user_id = bob_id,
            secretMessages_content = yo, secretMessages_updated_at = 1020\<rparr>]\<rparr>,
        Reply 200 (Some ''updated'')
          (SecretRow \<lparr>secretMessages_id = secret_a_id, secretMessages_user_id = alice_id,
            secretMessages_content = yo, secretMessages_updated_at = 2000\<rparr>))"
  by code_simp

text \<open>
  C5. Accepting a request as its sender changes nothing, and the request stays pending,
  but the call is answered 200 with no row, not 404. Accepting it as its receiver sets the
  status to accepted and returns the row.
\<close>

theorem acceptRequest_wrong_party:
  "acceptRequest pending_db req_ab alice = (pending_db, Reply 200 None (RequestRowOpt None))
 \<and> acceptRequest pending_db req_ab bob
     = (pending_db\<lparr>friendRequests :=
          [\<lparr>friendRequests_id = req_ab_id, friendRequests_sender_id = alice_id,
            friendRequests_receiver_id = bob_id, friendRequests_status = Accepted,
            friendRequests_created_at = 1030\<rparr>]\<rparr>,
        Reply 200 None (RequestRowOpt (Some
          \<lparr>friendRequests_id = req_ab_id, friendRequests_sender_id = alice_id,
            friendRequests_receiver_id = bob_id, friendRequests_status = Accepted,
            friendRequests_created_at = 1030\<rparr>)))"
  by code_simp

end
